theory Spec2Isabelle
  imports Main "HOL-Library.Sublist" "HOL-Library.AList"
begin

section \<open>JavaScript strings\<close>

text \<open>
  A JavaScript string is modelled by the bytes of its UTF-8 encoding, so \<open>string\<close> literals
  read as in \<^verbatim>\<open>server.js\<close>. Every separator and keyword the server looks for is ASCII,
  and an ASCII byte never occurs inside a multi-byte UTF-8 sequence, so the byte-wise
  operations below find the same places as the code-unit-wise operations of the engine.
\<close>

definition byte :: "char \<Rightarrow> nat" where
  "byte c = of_char c"

definition startsWith :: "string \<Rightarrow> string \<Rightarrow> bool" where
  \<comment> \<open>\<^verbatim>\<open>s.startsWith(p)\<close>\<close>
  "startsWith s p = prefix p s"

definition endsWith :: "string \<Rightarrow> string \<Rightarrow> bool" where
  "endsWith s p = suffix p s"

definition str_includes :: "string \<Rightarrow> string \<Rightarrow> bool" where
  \<comment> \<open>\<^verbatim>\<open>s.includes(p)\<close>\<close>
  "str_includes s p = list_ex (\<lambda>t. prefix p t) (suffixes s)"

definition truthy :: "string option \<Rightarrow> bool" where
  \<comment> \<open>\<^verbatim>\<open>if (x)\<close> for a value that is a string, \<^verbatim>\<open>null\<close> or \<^verbatim>\<open>undefined\<close>: the empty string is falsy\<close>
  "truthy x = (case x of None \<Rightarrow> False | Some s \<Rightarrow> s \<noteq> [])"

definition lower_char :: "char \<Rightarrow> char" where
  "lower_char c = (if 65 \<le> byte c \<and> byte c \<le> 90 then char_of (byte c + 32) else c)"

definition toLowerCase :: "string \<Rightarrow> string" where
  \<comment> \<open>\<^verbatim>\<open>s.toLowerCase()\<close> on the ASCII letters. The server only compares the result with
      \<^verbatim>\<open>'stylesheet'\<close>, and no character outside ASCII lower-cases to one of its letters,
      so the comparison is decided by the ASCII letters alone.\<close>
  "toLowerCase s = map lower_char s"

fun split_at :: "char \<Rightarrow> string \<Rightarrow> string list" where
  \<comment> \<open>\<^verbatim>\<open>s.split(sep)\<close> for a separator of one character: never the empty array\<close>
  "split_at sep [] = [[]]"
| "split_at sep (c # cs) =
     (if c = sep then [] # split_at sep cs
      else (case split_at sep cs of [] \<Rightarrow> [[c]] | t # ts \<Rightarrow> (c # t) # ts))"

fun join_with :: "string \<Rightarrow> string list \<Rightarrow> string" where
  \<comment> \<open>\<^verbatim>\<open>parts.join(sep)\<close>\<close>
  "join_with sep [] = []"
| "join_with sep [x] = x"
| "join_with sep (x # y # ys) = x @ sep @ join_with sep (y # ys)"

text \<open>
  The characters \<^verbatim>\<open>trim()\<close> strips and \<^verbatim>\<open>\s\<close> matches (ECMAScript WhiteSpace and
  LineTerminator), each as its UTF-8 bytes: TAB, LF, VT, FF, CR, SPACE, U+00A0, U+1680,
  U+2000 to U+200A, U+2028, U+2029, U+202F, U+205F, U+3000 and U+FEFF.
\<close>

definition whiteSpace :: "string list" where
  "whiteSpace =
     [[CHR 0x09], [CHR 0x0A], [CHR 0x0B], [CHR 0x0C], [CHR 0x0D], [CHR 0x20],
      [CHR 0xC2, CHR 0xA0], [CHR 0xE1, CHR 0x9A, CHR 0x80],
      [CHR 0xE2, CHR 0x80, CHR 0x80], [CHR 0xE2, CHR 0x80, CHR 0x81],
      [CHR 0xE2, CHR 0x80, CHR 0x82], [CHR 0xE2, CHR 0x80, CHR 0x83],
      [CHR 0xE2, CHR 0x80, CHR 0x84], [CHR 0xE2, CHR 0x80, CHR 0x85],
      [CHR 0xE2, CHR 0x80, CHR 0x86], [CHR 0xE2, CHR 0x80, CHR 0x87],
      [CHR 0xE2, CHR 0x80, CHR 0x88], [CHR 0xE2, CHR 0x80, CHR 0x89],
      [CHR 0xE2, CHR 0x80, CHR 0x8A], [CHR 0xE2, CHR 0x80, CHR 0xA8],
      [CHR 0xE2, CHR 0x80, CHR 0xA9], [CHR 0xE2, CHR 0x80, CHR 0xAF],
      [CHR 0xE2, CHR 0x81, CHR 0x9F], [CHR 0xE3, CHR 0x80, CHR 0x80],
      [CHR 0xEF, CHR 0xBB, CHR 0xBF]]"

definition ws_at :: "string \<Rightarrow> string option" where
  \<comment> \<open>the white space character the string starts with, if it starts with one\<close>
  "ws_at s = find (\<lambda>w. prefix w s) whiteSpace"

definition ws_end :: "string \<Rightarrow> string option" where
  \<comment> \<open>the white space character the string ends with, if it ends with one\<close>
  "ws_end s = find (\<lambda>w. suffix w s) whiteSpace"

lemma whiteSpace_nonempty: "w \<in> set whiteSpace \<Longrightarrow> w \<noteq> []"
  by (auto simp: whiteSpace_def)

lemma ws_at_Some: "ws_at s = Some w \<Longrightarrow> w \<in> set whiteSpace \<and> prefix w s \<and> w \<noteq> []"
proof -
  assume "ws_at s = Some w"
  then obtain i where "i < length whiteSpace" "whiteSpace ! i = w" "prefix w s"
    unfolding ws_at_def find_Some_iff by blast
  then have "w \<in> set whiteSpace" and "prefix w s"
    using nth_mem by blast+
  then show ?thesis by (simp add: whiteSpace_nonempty)
qed

lemma ws_end_Some: "ws_end s = Some w \<Longrightarrow> w \<in> set whiteSpace \<and> suffix w s \<and> w \<noteq> []"
proof -
  assume "ws_end s = Some w"
  then obtain i where "i < length whiteSpace" "whiteSpace ! i = w" "suffix w s"
    unfolding ws_end_def find_Some_iff by blast
  then have "w \<in> set whiteSpace" and "suffix w s"
    using nth_mem by blast+
  then show ?thesis by (simp add: whiteSpace_nonempty)
qed

lemma ws_at_shorter: "ws_at s = Some w \<Longrightarrow> length (drop (length w) s) < length s"
  using ws_at_Some [of s w] by (cases s) (auto simp: prefix_def)

lemma ws_end_shorter: "ws_end s = Some w \<Longrightarrow> length (take (length s - length w) s) < length s"
  using ws_end_Some [of s w] by (cases s) (auto simp: suffix_def)

function trimStart :: "string \<Rightarrow> string" where
  "trimStart s = (case ws_at s of None \<Rightarrow> s | Some w \<Rightarrow> trimStart (drop (length w) s))"
  by pat_completeness auto
termination
  by (relation "measure length") (auto dest: ws_at_shorter)

function trimEnd :: "string \<Rightarrow> string" where
  "trimEnd s =
     (case ws_end s of None \<Rightarrow> s | Some w \<Rightarrow> trimEnd (take (length s - length w) s))"
  by pat_completeness auto
termination
  by (relation "measure length") (auto dest: ws_end_shorter)

declare trimStart.simps [simp del] trimEnd.simps [simp del]

definition trim :: "string \<Rightarrow> string" where
  \<comment> \<open>\<^verbatim>\<open>s.trim()\<close>\<close>
  "trim s = trimEnd (trimStart s)"

lemma trimStart_length: "length (trimStart s) \<le> length s"
proof (induction s rule: trimStart.induct)
  case (1 s)
  show ?case
  proof (cases "ws_at s")
    case None
    then show ?thesis by (simp add: trimStart.simps [of s])
  next
    case (Some w)
    with "1" have "length (trimStart (drop (length w) s)) \<le> length (drop (length w) s)"
      by simp
    with Some show ?thesis by (simp add: trimStart.simps [of s])
  qed
qed

lemma trimStart_shorter: "ws_at s = Some w \<Longrightarrow> length (trimStart s) < length s"
proof -
  assume a: "ws_at s = Some w"
  have "length (trimStart (drop (length w) s)) \<le> length (drop (length w) s)"
    by (rule trimStart_length)
  with ws_at_shorter [OF a] a show ?thesis by (simp add: trimStart.simps [of s])
qed

function split_ws_from :: "string \<Rightarrow> string \<Rightarrow> string list" where
  \<comment> \<open>the pieces of \<^verbatim>\<open>s.split(/\s+/)\<close>; the first argument is the piece being read\<close>
  "split_ws_from piece [] = [piece]"
| "split_ws_from piece (c # cs) =
     (if ws_at (c # cs) \<noteq> None then piece # split_ws_from [] (trimStart (c # cs))
      else split_ws_from (piece @ [c]) cs)"
  by pat_completeness auto
termination
  by (relation "measure (\<lambda>(piece, s). length s)") (auto dest: trimStart_shorter)

definition split_ws :: "string \<Rightarrow> string list" where
  \<comment> \<open>\<^verbatim>\<open>s.split(/\s+/)\<close>: each maximal run of white space separates two pieces\<close>
  "split_ws s = split_ws_from [] s"

section \<open>encodeURIComponent\<close>

definition uriUnescaped :: "char \<Rightarrow> bool" where
  \<comment> \<open>the characters \<^verbatim>\<open>encodeURIComponent\<close> leaves as they are: letters, digits and
      \<^verbatim>\<open>- _ . ! ~ * ' ( )\<close>\<close>
  "uriUnescaped c =
     (c \<in> set ''ABCDEFGHIJKLMNOPQRSTUVWXYZabcdefghijklmnopqrstuvwxyz0123456789-_.!~*()''
      \<or> c = CHR 0x27)"

definition hexDigit :: "nat \<Rightarrow> char" where
  "hexDigit n = ''0123456789ABCDEF'' ! (n mod 16)"

definition percent_byte :: "char \<Rightarrow> string" where
  "percent_byte c = [CHR ''%'', hexDigit (byte c div 16), hexDigit (byte c mod 16)]"

definition encodeURIComponent :: "string \<Rightarrow> string" where
  \<comment> \<open>every other byte of the UTF-8 encoding becomes \<^verbatim>\<open>%XX\<close>\<close>
  "encodeURIComponent s = concat (map (\<lambda>c. if uriUnescaped c then [c] else percent_byte c) s)"

section \<open>The URL constructor\<close>

text \<open>
  \<^verbatim>\<open>new URL(relative, base)\<close> is the platform's, not the server's. The server's functions
  below take it as a parameter, so what is proved of them holds whatever the constructor
  answers. For the examples a constructor is needed that runs: this section writes out the
  URL Standard's basic parser and serializer on byte strings, state by state (each state is
  one function, named after it). Three parts of the standard are left out, and the model
  rejects the input where one would be needed, although the platform accepts it:
  \<^verbatim>\<open>file:\<close> URLs, IPv6 literals, and domains that are not settled by ASCII lower-casing
  (a character outside ASCII or an \<^verbatim>\<open>xn--\<close> label). The general statements about the
  model below are therefore statements about the inputs it accepts. The percent-encode
  sets are those of the constructor of Node 22, which leaves a circumflex in a path as
  it is.
\<close>

datatype url_path = Opaque string | Segments "string list"

record url =
  scheme :: string
  username :: string
  password :: string
  host :: "string option"
  port :: "nat option"
  path :: url_path
  query :: "string option"
  fragment :: "string option"

definition ascii_alpha :: "char \<Rightarrow> bool" where
  "ascii_alpha c = ((65 \<le> byte c \<and> byte c \<le> 90) \<or> (97 \<le> byte c \<and> byte c \<le> 122))"

definition ascii_digit :: "char \<Rightarrow> bool" where
  "ascii_digit c = (48 \<le> byte c \<and> byte c \<le> 57)"

definition c0_control_or_space :: "char \<Rightarrow> bool" where
  "c0_control_or_space c = (byte c \<le> 32)"

definition tab_or_newline :: "char \<Rightarrow> bool" where
  "tab_or_newline c = (byte c = 9 \<or> byte c = 10 \<or> byte c = 13)"

definition c0_control_set :: "char \<Rightarrow> bool" where
  "c0_control_set c = (byte c < 32 \<or> 126 < byte c)"


definition fragment_set :: "char \<Rightarrow> bool" where
  "fragment_set c = (c0_control_set c \<or> byte c \<in> set [32, 34, 60, 62, 96])"

definition query_set :: "char \<Rightarrow> bool" where
  "query_set c = (c0_control_set c \<or> byte c \<in> set [32, 34, 35, 60, 62])"

definition special_query_set :: "char \<Rightarrow> bool" where
  "special_query_set c = (query_set c \<or> byte c = 39)"

definition path_set :: "char \<Rightarrow> bool" where
  "path_set c = (query_set c \<or> byte c \<in> set [63, 96, 123, 125])"

definition userinfo_set :: "char \<Rightarrow> bool" where
  "userinfo_set c = (path_set c \<or> byte c \<in> set [47, 58, 59, 61, 64, 91, 92, 93, 94, 124])"

definition percent_encode :: "(char \<Rightarrow> bool) \<Rightarrow> string \<Rightarrow> string" where
  "percent_encode inset s = concat (map (\<lambda>c. if inset c then percent_byte c else [c]) s)"

definition special_scheme :: "string \<Rightarrow> bool" where
  "special_scheme s = (s \<in> set [''ftp'', ''file'', ''http'', ''https'', ''ws'', ''wss''])"

definition default_port :: "string \<Rightarrow> nat option" where
  "default_port s = map_of [(''ftp'', 21), (''http'', 80), (''https'', 443), (''ws'', 80), (''wss'', 443)] s"

definition blank_url :: "string \<Rightarrow> url" where
  "blank_url sch = \<lparr>scheme = sch, username = [], password = [], host = None, port = None,
     path = Segments [], query = None, fragment = None\<rparr>"

definition segments :: "url \<Rightarrow> string list" where
  "segments u = (case path u of Segments ss \<Rightarrow> ss | Opaque p \<Rightarrow> [])"

definition is_slash :: "bool \<Rightarrow> char \<Rightarrow> bool" where
  \<comment> \<open>a path separator: a slash, and in a special URL a backslash too\<close>
  "is_slash special c = (c = CHR ''/'' \<or> (special \<and> c = CHR 0x5C))"

subsection \<open>Numbers\<close>

definition digit_of :: "char \<Rightarrow> nat" where
  \<comment> \<open>the digit a hexadecimal digit character stands for; 16 for any other character\<close>
  "digit_of c =
     (if ascii_digit c then byte c - 48
      else if 97 \<le> byte c \<and> byte c \<le> 102 then byte c - 87
      else if 65 \<le> byte c \<and> byte c \<le> 70 then byte c - 55
      else 16)"

definition number_in :: "nat \<Rightarrow> string \<Rightarrow> nat option" where
  \<comment> \<open>the number a string of digits in radix \<open>r\<close> stands for; the empty string stands for 0\<close>
  "number_in r s =
     (if list_all (\<lambda>c. digit_of c < r) s then Some (foldl (\<lambda>n c. n * r + digit_of c) 0 s)
      else None)"

fun decimal :: "nat \<Rightarrow> string" where
  "decimal n = (if n < 10 then [hexDigit n] else decimal (n div 10) @ [hexDigit (n mod 10)])"

declare decimal.simps [simp del]

subsection \<open>Hosts\<close>

fun percent_decode :: "string \<Rightarrow> string" where
  "percent_decode (p # a # b # cs) =
     (if p = CHR ''%'' \<and> digit_of a < 16 \<and> digit_of b < 16
      then char_of (digit_of a * 16 + digit_of b) # percent_decode cs
      else p # percent_decode (a # b # cs))"
| "percent_decode cs = cs"

definition forbidden_host :: "char \<Rightarrow> bool" where
  "forbidden_host c =
     (byte c \<in> set [0, 9, 10, 13, 32, 35, 47, 58, 60, 62, 63, 64, 91, 92, 93, 94, 124])"

definition forbidden_domain :: "char \<Rightarrow> bool" where
  "forbidden_domain c = (forbidden_host c \<or> byte c \<le> 31 \<or> byte c = 37 \<or> byte c = 127)"

definition ipv4_number :: "string \<Rightarrow> nat option" where
  "ipv4_number s =
     (if s = [] then None
      else if 2 \<le> length s \<and> (take 2 s = ''0x'' \<or> take 2 s = ''0X'') then number_in 16 (drop 2 s)
      else if 2 \<le> length s \<and> take 1 s = ''0'' then number_in 8 (drop 1 s)
      else number_in 10 s)"

definition ipv4_parts :: "string \<Rightarrow> string list" where
  \<comment> \<open>the parts between the dots, without the empty part a final dot leaves\<close>
  "ipv4_parts s =
     (let parts = split_at CHR ''.'' s
      in if 1 < length parts \<and> last parts = [] then butlast parts else parts)"

definition ends_in_number :: "string \<Rightarrow> bool" where
  "ends_in_number s =
     (let l = last (ipv4_parts s)
      in (l \<noteq> [] \<and> list_all ascii_digit l) \<or> ipv4_number l \<noteq> None)"

definition ipv4_parse :: "string \<Rightarrow> string option" where
  "ipv4_parse s =
     (let parts = ipv4_parts s; numbers = map ipv4_number parts
      in if 4 < length parts \<or> list_ex (\<lambda>n. n = None) numbers then None
         else let ns = map the numbers
              in if list_ex (\<lambda>n. 255 < n) (butlast ns) \<or> 256 ^ (5 - length ns) \<le> last ns then None
                 else let a = foldl (\<lambda>acc (n, k). acc + n * 256 ^ (3 - k)) (last ns)
                                (zip (butlast ns) [0 ..< length ns - 1])
                      in Some (decimal (a div 256 ^ 3) @ ''.'' @ decimal (a div 256 ^ 2 mod 256) @ ''.''
                               @ decimal (a div 256 mod 256) @ ''.'' @ decimal (a mod 256)))"

definition needs_idna :: "string \<Rightarrow> bool" where
  \<comment> \<open>a domain the ASCII lower-casing does not settle: a byte outside ASCII, or a label
      that starts with \<^verbatim>\<open>xn--\<close>\<close>
  "needs_idna d =
     (list_ex (\<lambda>c. 127 < byte c) d \<or> list_ex (\<lambda>l. take 4 l = ''xn--'') (split_at CHR ''.'' (toLowerCase d)))"

definition host_parse :: "bool \<Rightarrow> string \<Rightarrow> string option" where
  "host_parse special h =
     (if take 1 h = ''['' then None
      else if \<not> special then
        (if list_ex forbidden_host h then None else Some (percent_encode c0_control_set h))
      else let d = percent_decode h in
        if needs_idna d then None
        else let a = toLowerCase d in
          if a = [] \<or> list_ex forbidden_domain a then None
          else if ends_in_number a then ipv4_parse a
          else Some a)"

subsection \<open>Paths, queries and fragments\<close>

definition single_dot :: "string \<Rightarrow> bool" where
  "single_dot s = (toLowerCase s \<in> set [''.'', ''%2e''])"

definition double_dot :: "string \<Rightarrow> bool" where
  "double_dot s = (toLowerCase s \<in> set [''..'', ''.%2e'', ''%2e.'', ''%2e%2e''])"

definition shorten :: "string list \<Rightarrow> string list" where
  "shorten p = butlast p"

definition add_segment :: "bool \<Rightarrow> string list \<Rightarrow> string \<Rightarrow> string list" where
  \<comment> \<open>the path state at the end of one segment; \<open>final\<close> when no slash follows it\<close>
  "add_segment final p seg =
     (let b = percent_encode path_set seg
      in if double_dot b then (if final then shorten p @ [[]] else shorten p)
         else if single_dot b then (if final then p @ [[]] else p)
         else p @ [b])"

fun split_slash :: "bool \<Rightarrow> string \<Rightarrow> string list" where
  "split_slash special [] = [[]]"
| "split_slash special (c # cs) =
     (if is_slash special c then [] # split_slash special cs
      else (case split_slash special cs of [] \<Rightarrow> [[c]] | t # ts \<Rightarrow> (c # t) # ts))"

definition parse_fragment :: "url \<Rightarrow> string \<Rightarrow> url" where
  "parse_fragment u s = u\<lparr>fragment := Some (percent_encode fragment_set s)\<rparr>"

definition parse_query :: "url \<Rightarrow> string \<Rightarrow> url" where
  \<comment> \<open>the query state, entered after the question mark\<close>
  "parse_query u s =
     (let q = takeWhile (\<lambda>c. c \<noteq> CHR ''#'') s; r = dropWhile (\<lambda>c. c \<noteq> CHR ''#'') s;
          inset = (if special_scheme (scheme u) then special_query_set else query_set);
          u' = u\<lparr>query := Some (percent_encode inset q)\<rparr>
      in if r = [] then u' else parse_fragment u' (tl r))"

definition after_path :: "url \<Rightarrow> string \<Rightarrow> url" where
  "after_path u s =
     (case s of [] \<Rightarrow> u
      | c # t \<Rightarrow> if c = CHR ''?'' then parse_query u t else parse_fragment u t)"

definition path_end :: "char \<Rightarrow> bool" where
  "path_end c = (c = CHR ''?'' \<or> c = CHR ''#'')"

definition parse_path :: "url \<Rightarrow> string \<Rightarrow> url" where
  \<comment> \<open>the path state, entered at the first character of the first segment\<close>
  "parse_path u s =
     (let p = takeWhile (\<lambda>c. \<not> path_end c) s; r = dropWhile (\<lambda>c. \<not> path_end c) s;
          segs = split_slash (special_scheme (scheme u)) p;
          p' = add_segment True (foldl (add_segment False) (segments u) (butlast segs)) (last segs)
      in after_path (u\<lparr>path := Segments p'\<rparr>) r)"

definition parse_opaque_path :: "url \<Rightarrow> string \<Rightarrow> url" where
  "parse_opaque_path u s =
     (let p = takeWhile (\<lambda>c. \<not> path_end c) s; r = dropWhile (\<lambda>c. \<not> path_end c) s
      in after_path (u\<lparr>path := Opaque (percent_encode c0_control_set p)\<rparr>) r)"

definition parse_path_start :: "url \<Rightarrow> string \<Rightarrow> url" where
  "parse_path_start u s =
     (if special_scheme (scheme u) then
        (case s of [] \<Rightarrow> parse_path u []
         | c # t \<Rightarrow> if is_slash True c then parse_path u t else parse_path u s)
      else
        (case s of [] \<Rightarrow> u
         | c # t \<Rightarrow> if path_end c then after_path u s
                    else if c = CHR ''/'' then parse_path u t else parse_path u s))"

subsection \<open>Authority\<close>

definition authority_end :: "bool \<Rightarrow> char \<Rightarrow> bool" where
  "authority_end special c = (is_slash special c \<or> path_end c)"

definition with_credentials :: "url \<Rightarrow> string \<Rightarrow> url" where
  \<comment> \<open>what stood before the last at sign: the first colon ends the user name\<close>
  "with_credentials u cr =
     (let name = takeWhile (\<lambda>c. c \<noteq> CHR '':'') cr; pw = drop (length name + 1) cr
      in u\<lparr>username := percent_encode userinfo_set name, password := percent_encode userinfo_set pw\<rparr>)"

fun host_length :: "bool \<Rightarrow> string \<Rightarrow> nat" where
  \<comment> \<open>how many characters stand before the colon that starts the port: the first colon
      outside square brackets\<close>
  "host_length inside [] = 0"
| "host_length inside (c # cs) =
     (if c = CHR '':'' \<and> \<not> inside then 0
      else Suc (host_length (if c = CHR ''['' then True else if c = CHR '']'' then False else inside) cs))"

definition parse_port :: "url \<Rightarrow> string \<Rightarrow> url option" where
  "parse_port u s =
     (if s = [] then Some u
      else if \<not> list_all ascii_digit s then None
      else (case number_in 10 s of None \<Rightarrow> None
            | Some n \<Rightarrow> if 65535 < n then None
                        else Some (u\<lparr>port := (if default_port (scheme u) = Some n then None else Some n)\<rparr>)))"

definition parse_host_port :: "url \<Rightarrow> string \<Rightarrow> url option" where
  "parse_host_port u hp =
     (let special = special_scheme (scheme u); n = host_length False hp; h = take n hp
      in if n < length hp then
           (if h = [] then None
            else (case host_parse special h of None \<Rightarrow> None
                  | Some a \<Rightarrow> parse_port (u\<lparr>host := Some a\<rparr>) (drop (Suc n) hp)))
         else if special \<and> h = [] then None
         else (case host_parse special h of None \<Rightarrow> None | Some a \<Rightarrow> Some (u\<lparr>host := Some a\<rparr>)))"

fun last_at :: "string \<Rightarrow> nat option" where
  \<comment> \<open>the position of the last at sign\<close>
  "last_at [] = None"
| "last_at (c # cs) =
     (case last_at cs of Some n \<Rightarrow> Some (Suc n)
      | None \<Rightarrow> if c = CHR ''@'' then Some 0 else None)"

definition parse_authority :: "url \<Rightarrow> string \<Rightarrow> url option" where
  \<comment> \<open>the authority state and the states after it, entered after the two slashes\<close>
  "parse_authority u s =
     (let special = special_scheme (scheme u);
          auth = takeWhile (\<lambda>c. \<not> authority_end special c) s;
          r = dropWhile (\<lambda>c. \<not> authority_end special c) s;
          u' = (case last_at auth of
                  None \<Rightarrow> parse_host_port u auth
                | Some n \<Rightarrow> if drop (Suc n) auth = [] then None
                            else parse_host_port (with_credentials u (take n auth)) (drop (Suc n) auth))
      in map_option (\<lambda>v. parse_path_start v r) u')"

subsection \<open>The parser and the serializer\<close>

definition take_scheme :: "string \<Rightarrow> (string \<times> string) option" where
  \<comment> \<open>the scheme start state and the scheme state: the scheme in lower case, and what
      follows its colon\<close>
  "take_scheme s =
     (let n = takeWhile (\<lambda>c. ascii_alpha c \<or> ascii_digit c \<or> c \<in> set ''+-.'') s; r = drop (length n) s
      in if n \<noteq> [] \<and> ascii_alpha (hd n) \<and> take 1 r = '':'' then Some (toLowerCase n, tl r) else None)"

definition strip_input :: "string \<Rightarrow> string" where
  "strip_input s =
     filter (\<lambda>c. \<not> tab_or_newline c)
       (rev (dropWhile c0_control_or_space (rev (dropWhile c0_control_or_space s))))"


definition parse_relative :: "url \<Rightarrow> string \<Rightarrow> url option" where
  \<comment> \<open>the relative state and the relative slash state, for a base with a path of segments\<close>
  "parse_relative b s =
     (let special = special_scheme (scheme b) in
      case s of [] \<Rightarrow> Some (b\<lparr>fragment := None\<rparr>)
      | c # t \<Rightarrow>
          if is_slash special c then
            (if special \<and> t \<noteq> [] \<and> is_slash True (hd t)
               then parse_authority (blank_url (scheme b)) (dropWhile (is_slash True) t)
             else if t \<noteq> [] \<and> hd t = CHR ''/'' then parse_authority (blank_url (scheme b)) (tl t)
             else Some (parse_path (b\<lparr>path := Segments [], query := None, fragment := None\<rparr>) t))
          else if c = CHR ''?'' then Some (parse_query (b\<lparr>fragment := None\<rparr>) t)
          else if c = CHR ''#'' then Some (parse_fragment b t)
          else Some (parse_path (b\<lparr>path := Segments (shorten (segments b)), query := None,
                                   fragment := None\<rparr>) s))"

definition basic_parse :: "string \<Rightarrow> url option \<Rightarrow> url option" where
  "basic_parse input base =
     (let s = strip_input input in
      case take_scheme s of
        Some (sch, r) \<Rightarrow>
          if sch = ''file'' then None
          else if special_scheme sch then
            (if map_option scheme base = Some sch \<and> take 2 r \<noteq> ''//''
               then parse_relative (the base) r
             else parse_authority (blank_url sch) (dropWhile (is_slash True) r))
          else if take 1 r = ''/'' then
            (if take 2 r = ''//'' then parse_authority (blank_url sch) (drop 2 r)
             else Some (parse_path (blank_url sch) (drop 1 r)))
          else Some (parse_opaque_path (blank_url sch) r)
      | None \<Rightarrow>
          (case base of None \<Rightarrow> None
           | Some b \<Rightarrow>
               (case path b of
                  Opaque p \<Rightarrow> if take 1 s = ''#'' then Some (parse_fragment b (tl s)) else None
                | Segments ss \<Rightarrow> if scheme b = ''file'' then None else parse_relative b s)))"

definition serialize_path :: "url \<Rightarrow> string" where
  "serialize_path u =
     (case path u of Opaque p \<Rightarrow> p | Segments ss \<Rightarrow> concat (map (\<lambda>s. CHR ''/'' # s) ss))"

definition serialize :: "url \<Rightarrow> string" where
  "serialize u =
     scheme u @ '':''
     @ (case host u of
          Some h \<Rightarrow> ''//''
            @ (if username u \<noteq> [] \<or> password u \<noteq> []
               then username u @ (if password u \<noteq> [] then '':'' @ password u else []) @ ''@'' else [])
            @ h @ (case port u of None \<Rightarrow> [] | Some n \<Rightarrow> '':'' @ decimal n)
        | None \<Rightarrow> (if 1 < length (segments u) \<and> hd (segments u) = [] then ''/.'' else []))
     @ serialize_path u
     @ (case query u of None \<Rightarrow> [] | Some q \<Rightarrow> ''?'' @ q)
     @ (case fragment u of None \<Rightarrow> [] | Some f \<Rightarrow> ''#'' @ f)"

definition new_URL :: "string \<Rightarrow> string \<Rightarrow> url option" where
  \<comment> \<open>\<^verbatim>\<open>new URL(relative, base)\<close>; \<open>None\<close> when the constructor throws\<close>
  "new_URL relative base =
     (case basic_parse base None of None \<Rightarrow> None | Some b \<Rightarrow> basic_parse relative (Some b))"

definition tuple_origin :: "url \<Rightarrow> string" where
  "tuple_origin u =
     scheme u @ ''://'' @ (case host u of Some h \<Rightarrow> h | None \<Rightarrow> [])
     @ (case port u of None \<Rightarrow> [] | Some n \<Rightarrow> '':'' @ decimal n)"

definition origin :: "url \<Rightarrow> string" where
  \<comment> \<open>the \<^verbatim>\<open>origin\<close> getter: an opaque origin reads \<^verbatim>\<open>null\<close>\<close>
  "origin u =
     (if scheme u \<in> set [''ftp'', ''http'', ''https'', ''ws'', ''wss''] then tuple_origin u
      else if scheme u = ''blob'' then
        (case basic_parse (serialize_path u) None of
           Some p \<Rightarrow> if scheme p \<in> set [''http'', ''https''] then tuple_origin p else ''null''
         | None \<Rightarrow> ''null'')
      else ''null'')"

record platform =
  URL_toString :: "string \<Rightarrow> string \<Rightarrow> string option"
    \<comment> \<open>\<^verbatim>\<open>new URL(relative, base).toString()\<close>, \<open>None\<close> when the constructor throws\<close>
  URL_origin :: "string \<Rightarrow> string option"
    \<comment> \<open>\<^verbatim>\<open>new URL(url).origin\<close>, \<open>None\<close> when the constructor throws\<close>

definition node_js :: platform where
  "node_js =
     \<lparr>URL_toString = (\<lambda>relative base. map_option serialize (new_URL relative base)),
      URL_origin = (\<lambda>u. map_option origin (basic_parse u None))\<rparr>"

definition pathname :: "string \<Rightarrow> string option" where
  \<comment> \<open>\<^verbatim>\<open>new URL(u).pathname\<close>\<close>
  "pathname u = map_option serialize_path (basic_parse u None)"

section \<open>server.js: the resolver\<close>

definition absoluteUrl :: "platform \<Rightarrow> string \<Rightarrow> string \<Rightarrow> string option" where
  \<comment> \<open>\<^verbatim>\<open>try { return new URL(relative, base).toString(); } catch (e) { return null; }\<close>\<close>
  "absoluteUrl pf base relative = URL_toString pf relative base"

section \<open>The document\<close>

text \<open>
  The tree \<^verbatim>\<open>cheerio.load\<close> builds. An element's attributes are kept in the order of the
  markup; a name occurs once. \<^verbatim>\<open>$(el).attr(name)\<close> reads an attribute, \<^verbatim>\<open>$(el).attr(name, v)\<close>
  writes it in place.
\<close>

type_synonym attributes = "(string \<times> string) list"

datatype node =
    Element (tagName: string) (attribs: attributes) (children: "node list")
  | Text string
  | Comment string

definition attr :: "attributes \<Rightarrow> string \<Rightarrow> string option" where
  "attr as name = map_of as name"

definition set_attr :: "attributes \<Rightarrow> string \<Rightarrow> string \<Rightarrow> attributes" where
  "set_attr as name v = AList.update name v as"

fun each :: "(string \<Rightarrow> attributes \<Rightarrow> bool) \<Rightarrow> (attributes \<Rightarrow> attributes) \<Rightarrow> node \<Rightarrow> node" where
  \<comment> \<open>\<^verbatim>\<open>$(selector).each((i, el) => ...)\<close> for a callback that rewrites the attributes of
      \<^verbatim>\<open>el\<close>: every element the selector matches, wherever it stands in the tree\<close>
  "each sel f (Element t as cs) = Element t (if sel t as then f as else as) (map (each sel f) cs)"
| "each sel f (Text s) = Text s"
| "each sel f (Comment s) = Comment s"

definition tag_with :: "string \<Rightarrow> string \<Rightarrow> string \<Rightarrow> attributes \<Rightarrow> bool" where
  \<comment> \<open>the selector \<^verbatim>\<open>tag[name]\<close>\<close>
  "tag_with tag name t as = (t = tag \<and> attr as name \<noteq> None)"

definition any_with :: "string \<Rightarrow> string \<Rightarrow> attributes \<Rightarrow> bool" where
  \<comment> \<open>the selector \<^verbatim>\<open>[name]\<close>\<close>
  "any_with name t as = (attr as name \<noteq> None)"

fun elements :: "node \<Rightarrow> node list" where
  \<comment> \<open>the elements of a tree in document order\<close>
  "elements (Element t as cs) = Element t as cs # concat (map elements cs)"
| "elements (Text s) = []"
| "elements (Comment s) = []"

definition select :: "(string \<Rightarrow> attributes \<Rightarrow> bool) \<Rightarrow> node list \<Rightarrow> node list" where
  \<comment> \<open>\<^verbatim>\<open>$(selector)\<close>: the matching elements in document order\<close>
  "select sel doc = filter (\<lambda>n. sel (tagName n) (attribs n)) (concat (map elements doc))"

fun text_of :: "node \<Rightarrow> string" where
  \<comment> \<open>\<^verbatim>\<open>.text()\<close>\<close>
  "text_of (Element t as cs) = concat (map text_of cs)"
| "text_of (Text s) = s"
| "text_of (Comment s) = []"

section \<open>server.js: the rewriting rules of /proxy\<close>

definition navigate :: "string \<Rightarrow> string" where
  \<comment> \<open>\<^verbatim>\<open>'/proxy?url=' + encodeURIComponent(abs)\<close>\<close>
  "navigate absolute = ''/proxy?url='' @ encodeURIComponent absolute"

definition asset :: "string \<Rightarrow> string" where
  \<comment> \<open>\<^verbatim>\<open>'/asset?url=' + encodeURIComponent(abs)\<close>\<close>
  "asset absolute = ''/asset?url='' @ encodeURIComponent absolute"

definition a_href :: "platform \<Rightarrow> string \<Rightarrow> attributes \<Rightarrow> attributes" where
  \<comment> \<open>the callback of \<^verbatim>\<open>$('a[href]').each\<close>\<close>
  "a_href pf base as =
     (case attr as ''href'' of
        None \<Rightarrow> as
      | Some href \<Rightarrow>
          if href = [] then as
          else if startsWith href ''#'' \<or> startsWith href ''javascript:'' then as
          else (case absoluteUrl pf base href of
                  None \<Rightarrow> as
                | Some absolute \<Rightarrow> if absolute = [] then as else set_attr as ''href'' (navigate absolute)))"

definition src_to_asset :: "platform \<Rightarrow> string \<Rightarrow> attributes \<Rightarrow> attributes" where
  \<comment> \<open>the callback of \<^verbatim>\<open>$('img[src]').each\<close> and of \<^verbatim>\<open>$('script[src]').each\<close>\<close>
  "src_to_asset pf base as =
     (case attr as ''src'' of
        None \<Rightarrow> as
      | Some src \<Rightarrow>
          (case absoluteUrl pf base src of
             None \<Rightarrow> as
           | Some absolute \<Rightarrow> if absolute = [] then as else set_attr as ''src'' (asset absolute)))"

definition css_name :: "string \<Rightarrow> bool" where
  \<comment> \<open>\<^verbatim>\<open>/\.(css)$/i.test(abs.split('?')[0])\<close>\<close>
  "css_name absolute = endsWith (toLowerCase (hd (split_at CHR ''?'' absolute))) ''.css''"

definition link_href :: "platform \<Rightarrow> string \<Rightarrow> attributes \<Rightarrow> attributes" where
  \<comment> \<open>the callback of \<^verbatim>\<open>$('link[href]').each\<close>\<close>
  "link_href pf base as =
     (case attr as ''href'' of
        None \<Rightarrow> as
      | Some href \<Rightarrow>
          let rel = toLowerCase (case attr as ''rel'' of None \<Rightarrow> [] | Some r \<Rightarrow> r) in
          (case absoluteUrl pf base href of
             None \<Rightarrow> as
           | Some absolute \<Rightarrow>
               if absolute = [] then as
               else if rel = ''stylesheet'' \<or> css_name absolute then set_attr as ''href'' (asset absolute)
               else set_attr as ''href'' (navigate absolute)))"

subsection \<open>Inline styles\<close>

text \<open>
  \<^verbatim>\<open>style.replace(/url\((['"]?)(.*?)\1\)/g, (m, q, inner) => ...)\<close>. A match starts with
  \<^verbatim>\<open>url(\<close>; the first group takes a quote when one stands there; the second group is
  the shortest run of characters, none a line terminator, after which the quote of the
  first group and a closing parenthesis stand. When no such run exists with the quote,
  the engine backtracks: the first group matches the empty string and the quote is the
  first character of the second group. The search goes on after the match.
\<close>

definition lineTerminator_at :: "string \<Rightarrow> bool" where
  \<comment> \<open>the string starts with LF, CR, U+2028 or U+2029: what \<^verbatim>\<open>.\<close> does not match\<close>
  "lineTerminator_at s =
     (prefix [CHR 0x0A] s \<or> prefix [CHR 0x0D] s
      \<or> prefix [CHR 0xE2, CHR 0x80, CHR 0xA8] s \<or> prefix [CHR 0xE2, CHR 0x80, CHR 0xA9] s)"

fun lazy_until :: "string \<Rightarrow> string \<Rightarrow> (string \<times> string) option" where
  \<comment> \<open>\<^verbatim>\<open>(.*?)\<close> followed by \<open>close\<close>: the run matched and what follows \<open>close\<close>\<close>
  "lazy_until close [] = (if close = [] then Some ([], []) else None)"
| "lazy_until close (c # cs) =
     (if prefix close (c # cs) then Some ([], drop (length close) (c # cs))
      else if lineTerminator_at (c # cs) then None
      else (case lazy_until close cs of
              None \<Rightarrow> None
            | Some (inner, rest) \<Rightarrow> Some (c # inner, rest)))"

definition quote_at :: "string \<Rightarrow> string" where
  \<comment> \<open>\<^verbatim>\<open>['"]?\<close>, greedy: the quote the string starts with, or the empty string\<close>
  "quote_at s = (if prefix [CHR 0x27] s \<or> prefix [CHR 0x22] s then take 1 s else [])"

definition match_url :: "string \<Rightarrow> (string \<times> string \<times> string) option" where
  \<comment> \<open>a match of the pattern at the start of the string: \<open>(q, inner, rest)\<close>\<close>
  "match_url s =
     (if \<not> prefix ''url('' s then None
      else let t = drop 4 s; q = quote_at t in
        (case (if q = [] then None else lazy_until (q @ '')'') (drop 1 t)) of
           Some (inner, rest) \<Rightarrow> Some (q, inner, rest)
         | None \<Rightarrow>
             (case lazy_until '')'' t of
                Some (inner, rest) \<Rightarrow> Some ([], inner, rest)
              | None \<Rightarrow> None)))"

definition matched :: "string \<Rightarrow> string \<Rightarrow> string" where
  \<comment> \<open>the text of a match, \<^verbatim>\<open>m\<close>\<close>
  "matched q inner = ''url('' @ q @ inner @ q @ '')''"

lemma lazy_until_length:
  "lazy_until close s = Some (inner, rest) \<Longrightarrow> length s = length inner + length close + length rest"
proof (induction s arbitrary: inner)
  case Nil
  then show ?case by (simp split: if_splits)
next
  case (Cons c cs)
  show ?case
  proof (cases "prefix close (c # cs)")
    case True
    with Cons.prems have "inner = []" and "rest = drop (length close) (c # cs)"
      by simp_all
    moreover from True have "length close \<le> length (c # cs)"
      by (rule prefix_length_le)
    ultimately show ?thesis by simp
  next
    case False
    with Cons.prems obtain i where "lazy_until close cs = Some (i, rest)" and "inner = c # i"
      by (auto split: if_splits option.splits)
    with Cons.IH [of i] show ?thesis by simp
  qed
qed

lemma match_url_length:
  "match_url s = Some (q, inner, rest) \<Longrightarrow> length s = length (matched q inner) + length rest"
  unfolding match_url_def matched_def quote_at_def
  by (auto simp: Let_def prefix_def split: if_splits option.splits dest!: lazy_until_length)

function replace_urls :: "(string \<Rightarrow> string \<Rightarrow> string \<Rightarrow> string) \<Rightarrow> string \<Rightarrow> string" where
  \<comment> \<open>\<^verbatim>\<open>style.replace(pattern, f)\<close>, the callback taking \<open>m\<close>, \<open>q\<close> and \<open>inner\<close>\<close>
  "replace_urls f [] = []"
| "replace_urls f (c # cs) =
     (case match_url (c # cs) of
        Some (q, inner, rest) \<Rightarrow> f (matched q inner) q inner @ replace_urls f rest
      | None \<Rightarrow> c # replace_urls f cs)"
  by pat_completeness auto
termination
  by (relation "measure (\<lambda>(f, s). length s)") (auto simp: matched_def dest!: match_url_length)

definition style_url :: "platform \<Rightarrow> string \<Rightarrow> string \<Rightarrow> string \<Rightarrow> string \<Rightarrow> string" where
  \<comment> \<open>the callback: \<^verbatim>\<open>if (!abs) return m; return `url('/asset?url=${encodeURIComponent(abs)}')`\<close>\<close>
  "style_url pf base m q inner =
     (case absoluteUrl pf base inner of
        None \<Rightarrow> m
      | Some absolute \<Rightarrow> if absolute = [] then m else ''url('' @ [CHR 0x27] @ asset absolute @ [CHR 0x27] @ '')'')"

definition inline_style :: "platform \<Rightarrow> string \<Rightarrow> attributes \<Rightarrow> attributes" where
  \<comment> \<open>the callback of \<^verbatim>\<open>$('[style]').each\<close>\<close>
  "inline_style pf base as =
     (case attr as ''style'' of
        None \<Rightarrow> as
      | Some style \<Rightarrow>
          if style = [] then as
          else set_attr as ''style'' (replace_urls (style_url pf base) style))"

subsection \<open>Source sets\<close>

definition srcset_candidate :: "platform \<Rightarrow> string \<Rightarrow> string \<Rightarrow> string" where
  \<comment> \<open>the callback of the second \<^verbatim>\<open>map\<close>: \<^verbatim>\<open>const [u, descriptor] = p.split(/\s+/)\<close>.
      The split never gives the empty array, so \<^verbatim>\<open>u\<close> is always a string.\<close>
  "srcset_candidate pf base p =
     (case split_ws p of
        [] \<Rightarrow> p
      | u # others \<Rightarrow>
          (case absoluteUrl pf base u of
             None \<Rightarrow> p
           | Some absolute \<Rightarrow>
               if absolute = [] then p
               else asset absolute @ (case others of
                                   [] \<Rightarrow> []
                                 | descriptor # _ \<Rightarrow>
                                     if descriptor = [] then [] else '' '' @ descriptor)))"

definition rewrite_srcset :: "platform \<Rightarrow> string \<Rightarrow> string \<Rightarrow> string" where
  \<comment> \<open>\<^verbatim>\<open>srcset.split(',').map(p => p.trim()).map(...).join(', ')\<close>\<close>
  "rewrite_srcset pf base srcset =
     join_with '', '' (map (srcset_candidate pf base) (map trim (split_at CHR '','' srcset)))"

definition img_srcset :: "platform \<Rightarrow> string \<Rightarrow> attributes \<Rightarrow> attributes" where
  \<comment> \<open>the callback of \<^verbatim>\<open>$('img[srcset]').each\<close>\<close>
  "img_srcset pf base as =
     (case attr as ''srcset'' of
        None \<Rightarrow> as
      | Some srcset \<Rightarrow>
          if srcset = [] then as else set_attr as ''srcset'' (rewrite_srcset pf base srcset))"

subsection \<open>The banner and the whole rewrite\<close>

definition banner :: "string \<Rightarrow> node" where
  \<comment> \<open>the markup \<^verbatim>\<open>$('body').prepend\<close> is given, as the parser reads it: the template
      pastes the base, unescaped, between the double quotes of \<^verbatim>\<open>href\<close>. The tree below
      is what the parser reads for a base without a double quote; a double quote in the
      base would end the attribute there, and such a base is outside this model. The dash
      of the text is U+2014.\<close>
  "banner base =
     Element ''div''
       [(''style'', ''position:fixed;left:0;right:0;top:0;background:rgba(0,0,0,0.55);color:#fff;padding:6px;z-index:99999;font-family:system-ui;font-size:12px;'')]
       [Text (''Proxied via In-Browser Proxy '' @ [CHR 0xE2, CHR 0x80, CHR 0x94] @ '' ''),
        Element ''a''
          [(''href'', base), (''style'', ''color:#9cf;''), (''target'', ''_blank''),
           (''rel'', ''noopener noreferrer'')]
          [Text ''Open original'']]"

fun prepend_banner :: "string \<Rightarrow> node \<Rightarrow> node" where
  \<comment> \<open>\<^verbatim>\<open>$('body').prepend(...)\<close>\<close>
  "prepend_banner base (Element t as cs) =
     Element t as ((if t = ''body'' then [banner base] else []) @ map (prepend_banner base) cs)"
| "prepend_banner base (Text s) = Text s"
| "prepend_banner base (Comment s) = Comment s"

definition rewrite_node :: "platform \<Rightarrow> string \<Rightarrow> node \<Rightarrow> node" where
  \<comment> \<open>the six passes in the order of the handler, then the banner\<close>
  "rewrite_node pf base n =
     prepend_banner base
       (each (tag_with ''img'' ''srcset'') (img_srcset pf base)
         (each (any_with ''style'') (inline_style pf base)
           (each (tag_with ''link'' ''href'') (link_href pf base)
             (each (tag_with ''script'' ''src'') (src_to_asset pf base)
               (each (tag_with ''img'' ''src'') (src_to_asset pf base)
                 (each (tag_with ''a'' ''href'') (a_href pf base) n))))))"

definition rewrite :: "platform \<Rightarrow> string \<Rightarrow> node list \<Rightarrow> node list" where
  "rewrite pf base doc = map (rewrite_node pf base) doc"

subsection \<open>Positions in a document\<close>



definition passes :: "platform \<Rightarrow> string \<Rightarrow> string \<Rightarrow> attributes \<Rightarrow> attributes" where
  \<comment> \<open>what the six passes, one after the other, make of the attributes of an element
      with the tag \<open>t\<close>\<close>
  "passes pf base t as =
     (let a1 = (if tag_with ''a'' ''href'' t as then a_href pf base as else as);
          a2 = (if tag_with ''img'' ''src'' t a1 then src_to_asset pf base a1 else a1);
          a3 = (if tag_with ''script'' ''src'' t a2 then src_to_asset pf base a2 else a2);
          a4 = (if tag_with ''link'' ''href'' t a3 then link_href pf base a3 else a3);
          a5 = (if any_with ''style'' t a4 then inline_style pf base a4 else a4)
      in if tag_with ''img'' ''srcset'' t a5 then img_srcset pf base a5 else a5)"

section \<open>server.js: the three handlers\<close>

text \<open>
  \<^verbatim>\<open>fetch\<close> is the environment: the outcome of the \<open>n\<close>-th call a request makes, a rejection
  or a response. A response has its status, its \<^verbatim>\<open>content-type\<close> header if it has one,
  whether its body is a stream that can be piped, and what reading the body to its end
  gives: all its bytes, or a failure after some of them (then \<^verbatim>\<open>r.text()\<close> and
  \<^verbatim>\<open>r.buffer()\<close> reject). The parser \<^verbatim>\<open>cheerio.load\<close> is a parameter too.
\<close>

datatype fetch_error = Rejected

datatype body_read = Complete string | Broken string

record upstream =
  up_status :: nat
  up_content_type :: "string option"
  up_pipeable :: bool
  up_body :: body_read

type_synonym fetch = "nat \<Rightarrow> string \<Rightarrow> fetch_error + upstream"

datatype payload =
    Sent string
  | Piped body_read
  | Json_meta string "string option"
  | Json_error string
  | Html "node list"

text \<open>
  What a handler answers: the status (200 unless \<^verbatim>\<open>res.status\<close> is called), the
  \<^verbatim>\<open>Content-Type\<close> header as the handler's call of \<^verbatim>\<open>res.set\<close> leaves it, if it calls
  it, and what it sends. A body that is piped goes out with the header as it is then, or
  with none; to a body handed to \<^verbatim>\<open>res.send\<close> or \<^verbatim>\<open>res.json\<close> without a type Express gives
  a default type of its own, which is not recorded here.
\<close>

record response =
  status :: nat
  content_type :: "string option"
  payload :: payload

definition reply :: "nat \<Rightarrow> string option \<Rightarrow> payload \<Rightarrow> response" where
  "reply st ct p = \<lparr>status = st, content_type = ct, payload = p\<rparr>"

definition missing :: "string option \<Rightarrow> bool" where
  \<comment> \<open>\<^verbatim>\<open>!url\<close> for the query parameter\<close>
  "missing url = (\<not> truthy url)"

definition first_attr :: "(string \<Rightarrow> attributes \<Rightarrow> bool) \<Rightarrow> string \<Rightarrow> node list \<Rightarrow> string option" where
  \<comment> \<open>\<^verbatim>\<open>$(selector).attr(name)\<close>: the attribute of the first element matched\<close>
  "first_attr sel name doc =
     (case select sel doc of [] \<Rightarrow> None | el # _ \<Rightarrow> attr (attribs el) name)"

definition tag_where :: "string \<Rightarrow> string \<Rightarrow> string \<Rightarrow> string \<Rightarrow> attributes \<Rightarrow> bool" where
  \<comment> \<open>the selector \<^verbatim>\<open>tag[name="v"]\<close> for an attribute whose value is compared as it is
      written (\<^verbatim>\<open>property\<close>)\<close>
  "tag_where tag name v t as = (t = tag \<and> attr as name = Some v)"

definition tag_rel :: "string \<Rightarrow> string \<Rightarrow> string \<Rightarrow> attributes \<Rightarrow> bool" where
  \<comment> \<open>the selector \<^verbatim>\<open>tag[rel="v"]\<close> with \<open>v\<close> in lower case: in an HTML document the
      selector engine of cheerio compares the value of \<^verbatim>\<open>rel\<close> without regard to case
      (both sides lower-cased), so \<^verbatim>\<open>rel="ICON"\<close> matches too. The three values looked
      for have no letter that a character outside ASCII lower-cases to.\<close>
  "tag_rel tag v t as =
     (t = tag \<and> (case attr as ''rel'' of None \<Rightarrow> False | Some x \<Rightarrow> toLowerCase x = v))"

definition or_else :: "string option \<Rightarrow> string option \<Rightarrow> string option" where
  \<comment> \<open>\<^verbatim>\<open>a || b\<close>\<close>
  "or_else a b = (if truthy a then a else b)"

definition page_title :: "string \<Rightarrow> node list \<Rightarrow> string" where
  "page_title url doc =
     (let og = first_attr (tag_where ''meta'' ''property'' ''og:title'') ''content'' doc;
          t = (case select (\<lambda>t as. t = ''title'') doc of [] \<Rightarrow> [] | el # _ \<Rightarrow> text_of el)
      in if truthy og then the og else if t \<noteq> [] then t else url)"

definition icon_href :: "node list \<Rightarrow> string option" where
  \<comment> \<open>the three lookups of the favicon, joined by \<^verbatim>\<open>||\<close>\<close>
  "icon_href doc =
     or_else (first_attr (tag_rel ''link'' ''icon'') ''href'' doc)
       (or_else (first_attr (tag_rel ''link'' ''shortcut icon'') ''href'' doc)
          (first_attr (tag_rel ''link'' ''apple-touch-icon'') ''href'' doc))"

definition page_favicon :: "platform \<Rightarrow> string \<Rightarrow> node list \<Rightarrow> string option" where
  "page_favicon pf url doc =
     (if truthy (icon_href doc) then absoluteUrl pf url (the (icon_href doc))
      else (case URL_origin pf url of
              Some og \<Rightarrow> Some (og @ ''/favicon.ico'')
            | None \<Rightarrow> None))"

definition meta_handler :: "platform \<Rightarrow> (string \<Rightarrow> node list) \<Rightarrow> fetch \<Rightarrow> string option \<Rightarrow> response" where
  \<comment> \<open>\<^verbatim>\<open>app.get('/meta', ...)\<close>\<close>
  "meta_handler pf load fetch url =
     (if missing url then reply 400 None (Json_error ''missing url'')
      else let u = the url in
        (case fetch 0 u of
           Inl e \<Rightarrow> reply 200 None (Json_meta u None)
         | Inr r \<Rightarrow>
             (case up_body r of
                Broken b \<Rightarrow> reply 200 None (Json_meta u None)
              | Complete txt \<Rightarrow>
                  reply 200 None
                    (Json_meta (page_title u (load txt)) (page_favicon pf u (load txt))))))"

definition charset_named :: "string \<Rightarrow> bool" where
  \<comment> \<open>Express, \<^verbatim>\<open>/;\s*charset\s*=/.test(value)\<close>\<close>
  "charset_named v =
     list_ex (\<lambda>t. case t of
                  [] \<Rightarrow> False
                | c # r \<Rightarrow> c = CHR '';'' \<and> prefix ''charset'' (trimStart r)
                           \<and> prefix ''='' (trimStart (drop 7 (trimStart r))))
       (suffixes v)"

definition text_type :: "string \<Rightarrow> bool" where
  \<comment> \<open>Express, \<^verbatim>\<open>mime.charsets.lookup(value.split(';')[0])\<close>: the types that match
      \<^verbatim>\<open>/^text\/|^application\/(javascript|json)/\<close> have the charset UTF-8\<close>
  "text_type v =
     (let t = hd (split_at CHR '';'' v)
      in prefix ''text/'' t \<or> prefix ''application/javascript'' t \<or> prefix ''application/json'' t)"

definition res_set_content_type :: "string \<Rightarrow> string" where
  \<comment> \<open>what \<^verbatim>\<open>res.set('Content-Type', value)\<close> of Express 4 stores: a value that names no
      charset and is of a text type gets \<^verbatim>\<open>; charset=utf-8\<close> appended\<close>
  "res_set_content_type v =
     (if \<not> charset_named v \<and> text_type v then v @ ''; charset=utf-8'' else v)"

definition forwarded_type :: "upstream \<Rightarrow> string option" where
  \<comment> \<open>\<^verbatim>\<open>const ct = r.headers.get('content-type'); if (ct) res.set('Content-Type', ct)\<close>\<close>
  "forwarded_type r =
     (case up_content_type r of
        None \<Rightarrow> None
      | Some ct \<Rightarrow> if ct = [] then None else Some (res_set_content_type ct))"

definition asset_handler :: "fetch \<Rightarrow> string option \<Rightarrow> response" where
  \<comment> \<open>\<^verbatim>\<open>app.get('/asset', ...)\<close>\<close>
  "asset_handler fetch url =
     (if missing url then reply 400 None (Sent ''No url'')
      else
        (case fetch 0 (the url) of
           Inl e \<Rightarrow> reply 500 None (Sent ''Asset fetch failed'')
         | Inr r \<Rightarrow>
             if up_pipeable r then reply 200 (forwarded_type r) (Piped (up_body r))
             else (case up_body r of
                     Complete b \<Rightarrow> reply 200 (forwarded_type r) (Sent b)
                   | Broken b \<Rightarrow> reply 500 (forwarded_type r) (Sent ''Asset fetch failed''))))"

definition proxy_handler :: "platform \<Rightarrow> (string \<Rightarrow> node list) \<Rightarrow> fetch \<Rightarrow> string option \<Rightarrow> response" where
  \<comment> \<open>\<^verbatim>\<open>app.get('/proxy', ...)\<close>\<close>
  "proxy_handler pf load fetch url =
     (if missing url then reply 400 None (Sent ''No url'')
      else let u = the url in
        (case fetch 0 u of
           Inl e \<Rightarrow> reply 500 None (Sent ''Proxy failed'')
         | Inr r \<Rightarrow>
             let contentType = (case up_content_type r of None \<Rightarrow> [] | Some c \<Rightarrow> c) in
             if \<not> str_includes contentType ''text/html'' then
               (case fetch 1 u of
                  Inl e \<Rightarrow> reply 500 None (Sent ''Proxy failed'')
                | Inr r2 \<Rightarrow>
                    if up_pipeable r2 then reply 200 None (Piped (up_body r2))
                    else (case up_body r2 of
                            Complete b \<Rightarrow> reply 200 None (Sent b)
                          | Broken b \<Rightarrow> reply 500 None (Sent ''Proxy failed'')))
             else
               (case up_body r of
                  Broken b \<Rightarrow> reply 500 None (Sent ''Proxy failed'')
                | Complete html \<Rightarrow>
                    reply 200 (Some ''text/html; charset=utf-8'') (Html (rewrite pf u (load html))))))"

section \<open>Inputs of the examples\<close>


definition png :: upstream where
  "png = \<lparr>up_status = 200, up_content_type = Some ''image/png'', up_pipeable = True,
     up_body = Complete ''PNG''\<rparr>"

definition page :: "string \<Rightarrow> upstream" where
  "page txt = \<lparr>up_status = 200, up_content_type = Some ''text/html'', up_pipeable = True,
     up_body = Complete txt\<rparr>"




definition icons_page :: "node list" where
  "icons_page =
     [Element ''html'' []
        [Element ''head'' []
           [Element ''link'' [(''rel'', ''Shortcut Icon''), (''href'', [])] [],
            Element ''link'' [(''rel'', ''shortcut icon''), (''href'', ''/later.ico'')] [],
            Element ''link'' [(''rel'', ''Apple-Touch-Icon''), (''href'', ''http://['')] []],
         Element ''body'' [] []]]"

definition empty_icon_page :: "node list" where
  "empty_icon_page =
     [Element ''html'' []
        [Element ''head'' []
           [Element ''link'' [(''rel'', ''ICON''), (''href'', [])] [],
            Element ''link'' [(''rel'', ''icon''), (''href'', ''/real.ico'')] []],
         Element ''body'' [] []]]"

section \<open>Evaluation\<close>

text \<open>The definitions the simplifier unfolds to run the URL constructor on a literal.\<close>

lemmas url_defs = byte_def startsWith_def endsWith_def lower_char_def toLowerCase_def
  hexDigit_def percent_byte_def ascii_alpha_def ascii_digit_def c0_control_or_space_def
  tab_or_newline_def c0_control_set_def fragment_set_def query_set_def special_query_set_def
  path_set_def userinfo_set_def percent_encode_def special_scheme_def default_port_def
  blank_url_def segments_def is_slash_def digit_of_def number_in_def forbidden_host_def
  forbidden_domain_def ipv4_number_def ipv4_parts_def ends_in_number_def ipv4_parse_def
  needs_idna_def host_parse_def single_dot_def double_dot_def shorten_def add_segment_def
  parse_fragment_def parse_query_def after_path_def path_end_def parse_path_def
  parse_opaque_path_def parse_path_start_def authority_end_def with_credentials_def
  parse_port_def parse_host_port_def parse_authority_def take_scheme_def strip_input_def
  parse_relative_def basic_parse_def serialize_path_def serialize_def new_URL_def
  tuple_origin_def origin_def node_js_def pathname_def absoluteUrl_def Let_def decimal.simps




lemma resolve_fragment_css:
  "absoluteUrl node_js ''https://example.com/'' ''/page#x.css'' = Some ''https://example.com/page#x.css''"
  by (simp add: url_defs)

lemma pathname_fragment_css: "pathname ''https://example.com/page#x.css'' = Some ''/page''"
  by (simp add: url_defs)

lemma asset_fragment_css:
  "asset ''https://example.com/page#x.css'' = ''/asset?url=https%3A%2F%2Fexample.com%2Fpage%23x.css''"
  by code_simp

lemma css_name_fragment_css: "css_name ''https://example.com/page#x.css''"
  by code_simp

lemma origin_example: "URL_origin node_js ''https://example.com/p'' = Some ''https://example.com''"
  by (simp add: url_defs)

lemma resolve_bracket: "absoluteUrl node_js ''https://example.com/p'' ''http://['' = None"
  by (simp add: url_defs)





lemma image_png_type: "res_set_content_type ''image/png'' = ''image/png''"
  by code_simp

section \<open>Attributes under the passes\<close>

lemma attr_set_attr: "attr (set_attr as k v) k' = (if k' = k then Some v else attr as k')"
  by (simp add: attr_def set_attr_def update_conv')

lemma a_href_other: "k \<noteq> ''href'' \<Longrightarrow> attr (a_href pf base as) k = attr as k"
  by (simp add: a_href_def attr_set_attr split: option.splits)

lemma src_to_asset_other: "k \<noteq> ''src'' \<Longrightarrow> attr (src_to_asset pf base as) k = attr as k"
  by (simp add: src_to_asset_def attr_set_attr split: option.splits)

lemma link_href_other: "k \<noteq> ''href'' \<Longrightarrow> attr (link_href pf base as) k = attr as k"
  by (simp add: link_href_def attr_set_attr Let_def split: option.splits)

lemma inline_style_other: "k \<noteq> ''style'' \<Longrightarrow> attr (inline_style pf base as) k = attr as k"
  by (simp add: inline_style_def attr_set_attr split: option.splits)

lemma img_srcset_other: "k \<noteq> ''srcset'' \<Longrightarrow> attr (img_srcset pf base as) k = attr as k"
  by (simp add: img_srcset_def attr_set_attr split: option.splits)

lemmas other_attrs =
  a_href_other src_to_asset_other link_href_other inline_style_other img_srcset_other


lemma link_pass:
  "attr (attribs (rewrite_node pf base (Element ''link'' as cs))) ''href''
     = attr (link_href pf base as) ''href''"
  by (simp add: rewrite_node_def tag_with_def any_with_def other_attrs link_href_def Let_def
      split: option.splits)

text \<open>
  The six passes go through the whole tree, and the banner is added under every \<^verbatim>\<open>body\<close>:
  an element that stands anywhere in the document stands after the rewrite at the moved
  position, with the attributes the passes give it and with its children rewritten.
\<close>

lemma rewrite_node_Element:
  "rewrite_node pf base (Element t as cs) =
     Element t (passes pf base t as)
       ((if t = ''body'' then [banner base] else []) @ map (rewrite_node pf base) cs)"
  by (simp add: rewrite_node_def passes_def Let_def)




lemma passes_link: "attr (passes pf base ''link'' as) ''href'' = attr (link_href pf base as) ''href''"
  using link_pass [of pf base as "[]"] by (simp add: rewrite_node_Element)

section \<open>The scheme of a parsed URL\<close>

















section \<open>References with a scheme that is not special\<close>













section \<open>The resolver\<close>




section \<open>Anchors\<close>



section \<open>Link elements\<close>

text \<open>
  C7. The claim routes a \<^verbatim>\<open>link\<close> to the asset endpoint when its \<^verbatim>\<open>rel\<close> is
  \<^verbatim>\<open>stylesheet\<close> or the path of the resolved URL ends in \<^verbatim>\<open>.css\<close>, and to the navigate
  endpoint otherwise. The handler tests the text of the resolved URL before its first
  question mark, and a fragment is part of that text: for
  \<^verbatim>\<open><link rel="canonical" href="/page#x.css">\<close> at \<^verbatim>\<open>https://example.com/\<close> the path is
  \<^verbatim>\<open>/page\<close>, which does not end in \<^verbatim>\<open>.css\<close>, and the \<^verbatim>\<open>href\<close> becomes an asset reference.
\<close>

theorem link_fragment_routed_to_asset:
  "attr (attribs (rewrite_node node_js ''https://example.com/''
      (Element ''link'' [(''rel'', ''canonical''), (''href'', ''/page#x.css'')] []))) ''href''
     = Some ''/asset?url=https%3A%2F%2Fexample.com%2Fpage%23x.css''
   \<and> pathname ''https://example.com/page#x.css'' = Some ''/page''
   \<and> \<not> endsWith ''/page'' ''.css''"
proof -
  have h: "attr [(''rel'', ''canonical''), (''href'', ''/page#x.css'')] ''href'' = Some ''/page#x.css''"
    by (simp add: attr_def)
  have "attr (link_href node_js ''https://example.com/''
           [(''rel'', ''canonical''), (''href'', ''/page#x.css'')]) ''href''
      = Some ''/asset?url=https%3A%2F%2Fexample.com%2Fpage%23x.css''"
    by (simp add: link_href_def attr_set_attr resolve_fragment_css css_name_fragment_css
        asset_fragment_css h Let_def)
  moreover have "\<not> endsWith ''/page'' ''.css''"
    by (simp add: endsWith_def suffix_def)
  ultimately show ?thesis
    by (simp add: link_pass pathname_fragment_css)
qed

section \<open>The asset relay\<close>




section \<open>The page load of a resource that is not HTML\<close>

text \<open>
  C5. The claim: when the declared content type does not contain \<^verbatim>\<open>text/html\<close>, the page
  load relays the upstream body byte for byte and forwards the upstream content type. The
  handler relays the body of its second fetch and sets no \<^verbatim>\<open>Content-Type\<close>, although its
  comment reads \<^verbatim>\<open>just pipe via /asset logic\<close> and the asset handler forwards the type:
  for an upstream PNG the page load answers without a content type, the asset relay with
  \<^verbatim>\<open>image/png\<close>.
\<close>
theorem proxy_non_html_sets_no_content_type:
  "proxy_handler pf load (\<lambda>n u. Inr png) (Some ''https://example.com/logo.png'')
     = reply 200 None (Piped (Complete ''PNG''))
   \<and> asset_handler (\<lambda>n u. Inr png) (Some ''https://example.com/logo.png'')
     = reply 200 (Some ''image/png'') (Piped (Complete ''PNG''))"
  by (simp add: proxy_handler_def asset_handler_def missing_def truthy_def png_def
      forwarded_type_def str_includes_def image_png_type)

section \<open>The metadata lookup\<close>

text \<open>
  C9. The claim: the metadata lookup never answers with a hard error; every request that
  fails is answered with the JSON of the title \<^verbatim>\<open>url\<close> and the favicon null. The handler
  starts with \<^verbatim>\<open>if (!url) return res.status(400).json({ error: 'missing url' })\<close>.
\<close>

theorem meta_missing_url_counterexample:
  "meta_handler node_js (\<lambda>t. []) (\<lambda>n u. Inl Rejected) None
     = reply 400 None (Json_error ''missing url'')
   \<and> status (reply 400 None (Json_error ''missing url'')) = 400"
  by (simp add: meta_handler_def missing_def truthy_def reply_def)

text \<open>
  C9, as the code has it. For every request with a \<^verbatim>\<open>url\<close> the answer has the status 200
  and is the JSON of a title and a favicon; when the fetch rejects or the body cannot be
  read, the title is the \<^verbatim>\<open>url\<close> and the favicon is null. A request without a \<^verbatim>\<open>url\<close>, or
  with an empty one, is answered 400 with the JSON \<^verbatim>\<open>{ error: 'missing url' }\<close>.
\<close>

theorem meta_degrades:
  assumes "u \<noteq> []"
  shows "status (meta_handler pf load fetch (Some u)) = 200
       \<and> (\<forall>e. fetch 0 u = Inl e \<longrightarrow>
            meta_handler pf load fetch (Some u) = reply 200 None (Json_meta u None))
       \<and> (\<forall>r b. fetch 0 u = Inr r \<longrightarrow> up_body r = Broken b \<longrightarrow>
            meta_handler pf load fetch (Some u) = reply 200 None (Json_meta u None))
       \<and> (\<forall>r t. fetch 0 u = Inr r \<longrightarrow> up_body r = Complete t \<longrightarrow>
            meta_handler pf load fetch (Some u)
              = reply 200 None (Json_meta (page_title u (load t)) (page_favicon pf u (load t))))
       \<and> meta_handler pf load fetch None = reply 400 None (Json_error ''missing url'')
       \<and> meta_handler pf load fetch (Some []) = reply 400 None (Json_error ''missing url'')"
  using assms
  by (auto simp: meta_handler_def missing_def truthy_def reply_def
      split: sum.splits body_read.splits)

theorem meta_degrades_witness:
  "''https://example.com/'' \<noteq> []
   \<and> meta_handler node_js (\<lambda>t. []) (\<lambda>n u. Inl Rejected) (Some ''https://example.com/'')
       = reply 200 None (Json_meta ''https://example.com/'' None)"
proof -
  have b: "''https://example.com/'' \<noteq> []"
    by simp
  from meta_degrades [OF b, of node_js "\<lambda>t. []" "\<lambda>n u. Inl Rejected"]
  show ?thesis by simp
qed
section \<open>The favicon\<close>

lemmas select_defs = first_attr_def select_def tag_rel_def tag_where_def attr_def toLowerCase_def
  lower_char_def byte_def

lemma icon_href_empty: "icon_href [Element ''link'' [(''rel'', ''icon''), (''href'', [])] []] = None"
  by (simp add: icon_href_def or_else_def truthy_def select_defs)

text \<open>
  C10. The claim: when a favicon \<^verbatim>\<open>link\<close> is present and its \<^verbatim>\<open>href\<close> does not resolve,
  the favicon is null, and the fallback \<^verbatim>\<open>{origin}/favicon.ico\<close> is computed only when no
  favicon \<^verbatim>\<open>link\<close> is found at all. The handler decides by the truth value of the looked-up
  \<^verbatim>\<open>href\<close>, not by the presence of the element: for a page with \<^verbatim>\<open><link rel="icon" href="">\<close>
  the favicon \<^verbatim>\<open>link\<close> is there, and the fallback is what the lookup returns.
\<close>

theorem favicon_fallback_counterexample:
  "payload (meta_handler node_js (\<lambda>t. [Element ''link'' [(''rel'', ''icon''), (''href'', [])] []])
      (\<lambda>n u. Inr (page ''<link rel=icon href>'')) (Some ''https://example.com/p''))
     = Json_meta ''https://example.com/p'' (Some ''https://example.com/favicon.ico'')"
  by (simp add: meta_handler_def missing_def truthy_def reply_def page_def page_favicon_def
      icon_href_empty origin_example page_title_def first_attr_def select_def tag_where_def)

text \<open>
  C10, as the code has it. Three elements are consulted, and no other: the first \<^verbatim>\<open>link\<close>
  whose \<^verbatim>\<open>rel\<close> is \<^verbatim>\<open>icon\<close>, the first whose \<^verbatim>\<open>rel\<close> is \<^verbatim>\<open>shortcut icon\<close> and the first
  whose \<^verbatim>\<open>rel\<close> is \<^verbatim>\<open>apple-touch-icon\<close>, the \<^verbatim>\<open>rel\<close> compared without regard to case. The
  looked-up \<^verbatim>\<open>href\<close> is the first that is there and not empty among their \<^verbatim>\<open>href\<close>, in
  this order. When there is one, the favicon is what the resolver returns for it: null
  when it does not resolve, never the fallback. The fallback is computed exactly when
  there is none, also when a favicon \<^verbatim>\<open>link\<close> is there: one of the three with an \<^verbatim>\<open>href\<close>
  that is missing or empty, or a later one that is not consulted.
\<close>

theorem favicon_rule:
  assumes "u \<noteq> []" and "fetch 0 u = Inr r" and "up_body r = Complete t"
  shows "let a = first_attr (tag_rel ''link'' ''icon'') ''href'' (load t);
             b = first_attr (tag_rel ''link'' ''shortcut icon'') ''href'' (load t);
             c = first_attr (tag_rel ''link'' ''apple-touch-icon'') ''href'' (load t);
             looked_up = (if a \<noteq> None \<and> a \<noteq> Some [] then a
                          else if b \<noteq> None \<and> b \<noteq> Some [] then b else c);
             favicon = (\<lambda>f. payload (meta_handler pf load fetch (Some u))
                               = Json_meta (page_title u (load t)) f)
         in (\<forall>h. looked_up = Some h \<longrightarrow> h \<noteq> [] \<longrightarrow> favicon (absoluteUrl pf u h))
          \<and> (\<forall>h. looked_up = Some h \<longrightarrow> h \<noteq> [] \<longrightarrow> absoluteUrl pf u h = None \<longrightarrow> favicon None)
          \<and> (looked_up = None \<or> looked_up = Some [] \<longrightarrow>
               favicon (case URL_origin pf u of
                          None \<Rightarrow> None
                        | Some og \<Rightarrow> Some (og @ ''/favicon.ico'')))"
  using assms
  by (auto simp: meta_handler_def missing_def truthy_def reply_def page_favicon_def icon_href_def
      or_else_def Let_def)

text \<open>
  Two pages. In the first the \<^verbatim>\<open>rel\<close> values are in mixed case, the first
  \<^verbatim>\<open>shortcut icon\<close> has an empty \<^verbatim>\<open>href\<close>, a second one is not consulted, and the
  \<^verbatim>\<open>apple-touch-icon\<close> has an \<^verbatim>\<open>href\<close> that does not resolve: the favicon is null. In the
  second the first \<^verbatim>\<open>icon\<close> has an empty \<^verbatim>\<open>href\<close> and a second one has a real one: the
  favicon is the fallback.
\<close>

theorem favicon_rule_witness:
  "''https://example.com/p'' \<noteq> []
   \<and> payload (meta_handler node_js (\<lambda>t. icons_page) (\<lambda>n u. Inr (page ''<html>''))
        (Some ''https://example.com/p''))
       = Json_meta ''https://example.com/p'' None
   \<and> payload (meta_handler node_js (\<lambda>t. empty_icon_page) (\<lambda>n u. Inr (page ''<html>''))
        (Some ''https://example.com/p''))
       = Json_meta ''https://example.com/p'' (Some ''https://example.com/favicon.ico'')"
proof -
  have a: "''https://example.com/p'' \<noteq> []"
    by simp
  have b: "(\<lambda>n u. Inr (page ''<html>'')) 0 ''https://example.com/p''
      = (Inr (page ''<html>'') :: fetch_error + upstream)"
    by simp
  have c: "up_body (page ''<html>'') = Complete ''<html>''"
    by (simp add: page_def)
  have t1: "page_title ''https://example.com/p'' icons_page = ''https://example.com/p''"
    by (simp add: page_title_def icons_page_def truthy_def select_defs)
  have t2: "page_title ''https://example.com/p'' empty_icon_page = ''https://example.com/p''"
    by (simp add: page_title_def empty_icon_page_def truthy_def select_defs)
  have i1: "first_attr (tag_rel ''link'' ''icon'') ''href'' icons_page = None"
    "first_attr (tag_rel ''link'' ''shortcut icon'') ''href'' icons_page = Some []"
    "first_attr (tag_rel ''link'' ''apple-touch-icon'') ''href'' icons_page = Some ''http://[''"
    by code_simp+
  have i2: "first_attr (tag_rel ''link'' ''icon'') ''href'' empty_icon_page = Some []"
    "first_attr (tag_rel ''link'' ''shortcut icon'') ''href'' empty_icon_page = None"
    "first_attr (tag_rel ''link'' ''apple-touch-icon'') ''href'' empty_icon_page = None"
    by code_simp+
  from favicon_rule [OF a b c, of "\<lambda>t. icons_page" node_js]
  have one: "payload (meta_handler node_js (\<lambda>t. icons_page) (\<lambda>n u. Inr (page ''<html>''))
        (Some ''https://example.com/p''))
       = Json_meta ''https://example.com/p'' None"
    by (simp add: Let_def i1 t1 resolve_bracket)
  from favicon_rule [OF a b c, of "\<lambda>t. empty_icon_page" node_js]
  have two: "payload (meta_handler node_js (\<lambda>t. empty_icon_page) (\<lambda>n u. Inr (page ''<html>''))
        (Some ''https://example.com/p''))
       = Json_meta ''https://example.com/p'' (Some ''https://example.com/favicon.ico'')"
    by (simp add: Let_def i2 t2 origin_example)
  from a one two show ?thesis
    by blast
qed

end
